theory Spec2Isabelle
  imports Main "HOL-Library.Char_ord"
begin

section \<open>Santa.ts: the cookie record and the cookie manager\<close>

text \<open>
  A shallow embedding of \<^verbatim>\<open>src/src/Santa.ts\<close>. A JavaScript string is a \<open>string\<close>
  (one \<open>char\<close> per code unit, so the code units U+0000 to U+00FF are covered);
  \<^verbatim>\<open>T | undefined\<close> is \<open>T option\<close>; the array \<^verbatim>\<open>Cookie[]\<close> is a list, and the
  assignments to \<^verbatim>\<open>document.cookie\<close> are kept as the list of strings written, in order.
  Every array element is an object of its own (elements are only ever created by
  \<^verbatim>\<open>new Cookie()\<close> followed by one \<^verbatim>\<open>push\<close>), so updating an object found by
  \<^verbatim>\<open>find\<close> is updating the first list element that satisfies the predicate.
\<close>

subsection \<open>The host: what the JavaScript runtime supplies\<close>

text \<open>
  \<^verbatim>\<open>new Date(value)\<close> and \<^verbatim>\<open>new Date(0)\<close> build a date; how a date string is read
  and how \<^verbatim>\<open>`${date}`\<close> renders are decided by the runtime (and its time zone), so a
  date is kept symbolically and its rendering is a parameter.
\<close>

datatype Date = Date_of_string string | Date_of_ms int

text \<open>
  \<open>inherited_keys\<close>: the string property names an array inherits from
  \<^verbatim>\<open>Array.prototype\<close> and \<^verbatim>\<open>Object.prototype\<close>;
  \<open>Date_toString\<close>: \<^verbatim>\<open>Date.prototype.toString\<close>.
\<close>

record Host =
  inherited_keys :: "string list"
  Date_toString :: "Date \<Rightarrow> string"

subsection \<open>String primitives\<close>

text \<open>\<^verbatim>\<open>s.split(sep)\<close> for a one-character separator: never the empty array.\<close>

fun split_on :: "char \<Rightarrow> string \<Rightarrow> string list" where
  "split_on sep [] = [[]]"
| "split_on sep (c # cs) =
     (if c = sep then [] # split_on sep cs
      else (case split_on sep cs of
              [] \<Rightarrow> [[c]]
            | w # ws \<Rightarrow> (c # w) # ws))"

text \<open>The white space and line terminators of ECMAScript among the code units below 256.\<close>

definition is_space :: "char \<Rightarrow> bool" where
  "is_space c =
     (c \<in> set [CHR 0x09, CHR 0x0A, CHR 0x0B, CHR 0x0C, CHR 0x0D, CHR 0x20, CHR 0xA0])"

definition trim :: "string \<Rightarrow> string" where
  "trim s = rev (dropWhile is_space (rev (dropWhile is_space s)))"

text \<open>The canonical decimal rendering of an array index (\<^verbatim>\<open>ToString\<close> of a number).\<close>

definition digit_char :: "nat \<Rightarrow> char" where
  "digit_char d = char_of (48 + d)"

function ToString_nat :: "nat \<Rightarrow> string" where
  "ToString_nat n =
     (if n < 10 then [digit_char n] else ToString_nat (n div 10) @ [digit_char (n mod 10)])"
  by pat_completeness auto
termination
  by (relation "measure id") auto

declare ToString_nat.simps [simp del]

subsection \<open>Regular expressions\<close>

text \<open>
  The two patterns of \<^verbatim>\<open>parse\<close> are sequences of character classes, each with a
  repetition count \<^verbatim>\<open>{lo,hi}\<close> (\<open>None\<close> for no upper bound). \<open>rx_whole\<close> matches a
  sequence against a whole string (\<^verbatim>\<open>^...$\<close>); \<open>rx_at_end\<close> matches it against some
  suffix (\<^verbatim>\<open>...$\<close>, as \<^verbatim>\<open>String.prototype.match\<close> searches every start position).
\<close>

type_synonym rx_item = "(char \<Rightarrow> bool) \<times> nat \<times> nat option"

fun rx_whole :: "rx_item list \<Rightarrow> string \<Rightarrow> bool" where
  "rx_whole [] s = (s = [])"
| "rx_whole ((p, lo, hi) # r) s =
     list_ex (\<lambda>k. list_all p (take k s) \<and> rx_whole r (drop k s))
       [lo ..< Suc (case hi of None \<Rightarrow> length s | Some h \<Rightarrow> min h (length s))]"

definition rx_at_end :: "rx_item list \<Rightarrow> string \<Rightarrow> bool" where
  "rx_at_end r s = list_ex (\<lambda>i. rx_whole r (drop i s)) [0 ..< Suc (length s)]"

definition is_digit :: "char \<Rightarrow> bool" where
  "is_digit c = (CHR ''0'' \<le> c \<and> c \<le> CHR ''9'')"

definition is_lower :: "char \<Rightarrow> bool" where
  "is_lower c = (CHR ''a'' \<le> c \<and> c \<le> CHR ''z'')"

definition is_upper :: "char \<Rightarrow> bool" where
  "is_upper c = (CHR ''A'' \<le> c \<and> c \<le> CHR ''Z'')"

text \<open>\<^verbatim>\<open>\w\<close>, \<^verbatim>\<open>\d\<close> and \<^verbatim>\<open>\W\<close>.\<close>

definition rx_w :: "char \<Rightarrow> bool" where
  "rx_w c = (is_lower c \<or> is_upper c \<or> is_digit c \<or> c = CHR ''_'')"

definition rx_W :: "char \<Rightarrow> bool" where
  "rx_W c = (\<not> rx_w c)"

definition lit :: "char \<Rightarrow> rx_item" where
  "lit c = ((\<lambda>x. x = c), 1, Some 1)"

definition times :: "(char \<Rightarrow> bool) \<Rightarrow> nat \<Rightarrow> rx_item" where
  "times p n = (p, n, Some n)"

text \<open>
  \<^verbatim>\<open>/\W{3}, \d{2} \w{3} \d{4} \d{2}:\d{2}:\d{2} \w+$/g\<close>
\<close>

definition expires_rx :: "rx_item list" where
  "expires_rx =
     [times rx_W 3, lit CHR '','', lit CHR '' '',
      times is_digit 2, lit CHR '' '',
      times rx_w 3, lit CHR '' '',
      times is_digit 4, lit CHR '' '',
      times is_digit 2, lit CHR '':'',
      times is_digit 2, lit CHR '':'',
      times is_digit 2, lit CHR '' '',
      (rx_w, 1, None)]"

text \<open>
  \<^verbatim>\<open>/^\/([a-z0-9-._~%!$&'()*+,;=:@\/]*)?$/i\<close>: a slash, then any number of characters
  of the class (the optional group around a starred class matches what the starred
  class matches); the flag \<^verbatim>\<open>i\<close> adds the upper-case letters.
\<close>

definition path_class :: "char \<Rightarrow> bool" where
  "path_class c =
     (is_lower c \<or> is_upper c \<or> is_digit c \<or>
      c \<in> set [CHR ''-'', CHR ''.'', CHR ''_'', CHR ''~'', CHR ''%'', CHR ''!'', CHR ''$'',
                 CHR ''&'', CHR 0x27, CHR ''('', CHR '')'', CHR ''*'', CHR ''+'', CHR '','',
                 CHR '';'', CHR ''='', CHR '':'', CHR ''@'', CHR ''/''])"

definition path_rx :: "rx_item list" where
  "path_rx = [lit CHR ''/'', (path_class, 0, None)]"

subsection \<open>The class Cookie\<close>

record Cookie =
  name :: string
  val :: string
  expires :: "Date option"
  path :: "string option"
  domain :: "string option"
  secure :: "bool option"

text \<open>The constructor.\<close>

definition new_Cookie :: Cookie where
  "new_Cookie =
     \<lparr>name = [], val = [], expires = None, path = None, domain = None, secure = Some False\<rparr>"

text \<open>
  \<^verbatim>\<open>toString\<close>: four conditional appends, each on the truthiness of the field. A
  \<^verbatim>\<open>Date\<close> object is truthy, a string is truthy when it is not empty, and
  \<^verbatim>\<open>`${true}`\<close> is \<^verbatim>\<open>true\<close>.
\<close>

definition Cookie_toString :: "Host \<Rightarrow> Cookie \<Rightarrow> string" where
  "Cookie_toString h c =
     (let cookieString = name c @ ''='' @ val c;
          cookieString = cookieString @
            (case expires c of Some d \<Rightarrow> ''; expires='' @ Date_toString h d | None \<Rightarrow> []);
          cookieString = cookieString @
            (case path c of Some p \<Rightarrow> (if p \<noteq> [] then ''; path='' @ p else []) | None \<Rightarrow> []);
          cookieString = cookieString @
            (case domain c of Some d \<Rightarrow> (if d \<noteq> [] then ''; domain='' @ d else []) | None \<Rightarrow> []);
          cookieString = cookieString @
            (case secure c of Some True \<Rightarrow> ''; secure=true'' | _ \<Rightarrow> [])
      in cookieString)"

subsection \<open>Cookies.parse\<close>

datatype error = TypeError

text \<open>
  One iteration of the loop over the parts, on the pair of the output array and the
  in-progress cookie. \<^verbatim>\<open>keyvalue[0].trim()\<close> would throw on an empty array.
\<close>

definition parse_part :: "Cookie list \<times> Cookie \<Rightarrow> string \<Rightarrow> error + Cookie list \<times> Cookie" where
  "parse_part st part =
     (case st of (Cookies, currentCookie) \<Rightarrow>
      (case split_on CHR ''='' part of
         [] \<Rightarrow> Inl TypeError
       | k # rest \<Rightarrow>
           (let key = trim k;
                v = (case rest of [] \<Rightarrow> [] | v1 # _ \<Rightarrow> (if v1 \<noteq> [] then trim v1 else []))
            in if key = ''expires'' then
                 Inr (Cookies, currentCookie\<lparr>expires :=
                        (if rx_at_end expires_rx v then Some (Date_of_string v) else None)\<rparr>)
               else if key = ''domain'' then
                 Inr (Cookies, currentCookie\<lparr>domain := Some v\<rparr>)
               else if key = ''path'' then
                 Inr (Cookies, currentCookie\<lparr>path :=
                        (if rx_whole path_rx v then Some v else None)\<rparr>)
               else if key = ''secure'' then
                 Inr (Cookies, currentCookie\<lparr>secure := Some True\<rparr>)
               else if name currentCookie \<noteq> [] then
                 Inr (Cookies @ [currentCookie], new_Cookie)
               else Inr (Cookies, currentCookie))))"

fun parse_loop :: "Cookie list \<times> Cookie \<Rightarrow> string list \<Rightarrow> error + Cookie list \<times> Cookie" where
  "parse_loop st [] = Inr st"
| "parse_loop st (part # parts) =
     (case parse_part st part of
        Inl e \<Rightarrow> Inl e
      | Inr st' \<Rightarrow> parse_loop st' parts)"

definition Cookies_parse :: "string \<Rightarrow> error + Cookie list" where
  "Cookies_parse cookies =
     (case parse_loop ([], new_Cookie) (split_on CHR '';'' cookies) of
        Inl e \<Rightarrow> Inl e
      | Inr (Cookies, currentCookie) \<Rightarrow> Inr Cookies)"

subsection \<open>The class Cookies\<close>

text \<open>
  The state: the field \<^verbatim>\<open>cookies\<close> and, for the host's store, every string assigned to
  \<^verbatim>\<open>document.cookie\<close> so far, oldest first.
\<close>

record Cookies_state =
  cookies :: "Cookie list"
  document_cookie :: "string list"

text \<open>The constructor parses the string it reads from \<^verbatim>\<open>document.cookie\<close>.\<close>

definition Cookies_new :: "string \<Rightarrow> error + Cookies_state" where
  "Cookies_new raw =
     (case Cookies_parse raw of
        Inl e \<Rightarrow> Inl e
      | Inr cs \<Rightarrow> Inr \<lparr>cookies = cs, document_cookie = []\<rparr>)"

text \<open>
  \<^verbatim>\<open>key in array\<close> for a string key: the array has the property itself (the decimal
  index of one of its elements, or \<^verbatim>\<open>length\<close>) or inherits it from a prototype.
\<close>

definition array_has_property :: "Host \<Rightarrow> 'a list \<Rightarrow> string \<Rightarrow> bool" where
  "array_has_property h xs k =
     (k \<in> set (map ToString_nat [0 ..< length xs]) \<or> k = ''length'' \<or>
      k \<in> set (inherited_keys h))"

definition Cookies_has :: "Host \<Rightarrow> Cookies_state \<Rightarrow> string \<Rightarrow> bool" where
  "Cookies_has h st n = array_has_property h (cookies st) n"

definition Cookies_get :: "Host \<Rightarrow> Cookies_state \<Rightarrow> string \<Rightarrow> string option" where
  "Cookies_get h st n =
     (if Cookies_has h st n then
        (case find (\<lambda>cookie. name cookie = n) (cookies st) of
           None \<Rightarrow> None
         | Some cookie \<Rightarrow> Some (val cookie))
      else None)"

text \<open>Assigning to the object that \<^verbatim>\<open>find\<close> returned: the first match is replaced.\<close>

fun update_first :: "('a \<Rightarrow> bool) \<Rightarrow> 'a \<Rightarrow> 'a list \<Rightarrow> 'a list" where
  "update_first P y [] = []"
| "update_first P y (x # xs) = (if P x then y # xs else x # update_first P y xs)"

definition Cookies_set ::
  "Host \<Rightarrow> Cookies_state \<Rightarrow> string \<Rightarrow> string \<Rightarrow> Date option \<Rightarrow> string option \<Rightarrow>
   string option \<Rightarrow> bool option \<Rightarrow> bool \<times> Cookies_state" where
  "Cookies_set h st n v e p d s =
     (if Cookies_has h st n then
        (case find (\<lambda>cookie. name cookie = n) (cookies st) of
           None \<Rightarrow> (True, st)
         | Some cookie \<Rightarrow>
             (let cookie' = cookie\<lparr>val := v, expires := e, path := p, domain := d,
                                   secure := Some (s = Some True)\<rparr>
              in (True,
                  st\<lparr>cookies := update_first (\<lambda>cookie. name cookie = n) cookie' (cookies st),
                     document_cookie := document_cookie st @ [Cookie_toString h cookie']\<rparr>)))
      else
        (let cookie = new_Cookie\<lparr>name := n, val := v, expires := e, path := p, domain := d,
                                 secure := Some (s = Some True)\<rparr>
         in (False,
             st\<lparr>cookies := cookies st @ [cookie],
                document_cookie := document_cookie st @ [Cookie_toString h cookie]\<rparr>)))"

text \<open>\<^verbatim>\<open>new Date(0)\<close>.\<close>

definition epoch :: Date where
  "epoch = Date_of_ms 0"

definition Cookies_remove :: "Host \<Rightarrow> Cookies_state \<Rightarrow> string \<Rightarrow> bool \<times> Cookies_state" where
  "Cookies_remove h st n =
     (if Cookies_has h st n then
        (case find (\<lambda>cookie. name cookie = n) (cookies st) of
           None \<Rightarrow> (True, st)
         | Some cookie \<Rightarrow>
             (let cookie' = cookie\<lparr>val := [], expires := Some epoch\<rparr>
              in (True,
                  st\<lparr>cookies := update_first (\<lambda>cookie. name cookie = n) cookie' (cookies st),
                     document_cookie := document_cookie st @ [Cookie_toString h cookie']\<rparr>)))
      else (False, st))"

text \<open>
  The loop of \<^verbatim>\<open>clear\<close>, over the cookies still to visit and the strings written so
  far: it returns the visited cookies as they are left and the strings written.
\<close>

fun clear_loop :: "Host \<Rightarrow> Cookie list \<Rightarrow> string list \<Rightarrow> Cookie list \<times> string list" where
  "clear_loop h [] written = ([], written)"
| "clear_loop h (cookie # rest) written =
     (let cookie' = cookie\<lparr>val := [], expires := Some epoch\<rparr>;
          (rest', written') = clear_loop h rest (written @ [Cookie_toString h cookie'])
      in (cookie' # rest', written'))"

definition Cookies_clear :: "Host \<Rightarrow> Cookies_state \<Rightarrow> bool \<times> Cookies_state" where
  "Cookies_clear h st =
     (if length (cookies st) > 0 then
        (case clear_loop h (cookies st) (document_cookie st) of
           (cs, written) \<Rightarrow> (True, st\<lparr>cookies := cs, document_cookie := written\<rparr>))
      else (False, st))"

definition Cookies_keys :: "Cookies_state \<Rightarrow> string list" where
  "Cookies_keys st = map name (cookies st)"

subsection \<open>A sample host\<close>

text \<open>
  The string-keyed properties of \<^verbatim>\<open>Array.prototype\<close> and \<^verbatim>\<open>Object.prototype\<close> in
  ECMAScript 2023 (with Annex B), and the rendering of the epoch in a runtime whose
  time zone is UTC. The examples below render no other date; any other date stands as
  \<^verbatim>\<open>Invalid Date\<close>.
\<close>

definition es_inherited_keys :: "string list" where
  "es_inherited_keys =
     [''constructor'', ''at'', ''concat'', ''copyWithin'', ''entries'', ''every'', ''fill'',
      ''filter'', ''find'', ''findIndex'', ''findLast'', ''findLastIndex'', ''flat'',
      ''flatMap'', ''forEach'', ''includes'', ''indexOf'', ''join'', ''keys'',
      ''lastIndexOf'', ''map'', ''pop'', ''push'', ''reduce'', ''reduceRight'', ''reverse'',
      ''shift'', ''slice'', ''some'', ''sort'', ''splice'', ''toLocaleString'',
      ''toReversed'', ''toSorted'', ''toSpliced'', ''toString'', ''unshift'', ''values'',
      ''with'', ''hasOwnProperty'', ''isPrototypeOf'', ''propertyIsEnumerable'',
      ''valueOf'', ''__proto__'', ''__defineGetter__'', ''__defineSetter__'',
      ''__lookupGetter__'', ''__lookupSetter__'']"

definition es_host :: Host where
  "es_host =
     \<lparr>inherited_keys = es_inherited_keys,
      Date_toString = (\<lambda>d. if d = epoch
         then ''Thu Jan 01 1970 00:00:00 GMT+0000 (Coordinated Universal Time)''
         else ''Invalid Date'')\<rparr>"

subsection \<open>Sample states\<close>

text \<open>The manager as the constructor leaves it: no cookie, nothing written.\<close>

definition fresh :: Cookies_state where
  "fresh = \<lparr>cookies = [], document_cookie = []\<rparr>"

text \<open>
  \<^verbatim>\<open>m.set('x', '1'); m.set('1', 'v', undefined, '/', 'd.e', true)\<close> on the fresh manager.
\<close>

definition two_cookies :: Cookies_state where
  "two_cookies =
     snd (Cookies_set es_host
            (snd (Cookies_set es_host fresh ''x'' ''1'' None None None None))
            ''1'' ''v'' None (Some ''/'') (Some ''d.e'') (Some True))"

subsection \<open>Vocabulary of the properties\<close>

text \<open>What \<^verbatim>\<open>remove\<close> and \<^verbatim>\<open>clear\<close> are to leave of a cookie: no value, expired at the epoch.\<close>

definition blank :: "Cookie \<Rightarrow> Cookie" where
  "blank c = c\<lparr>val := [], expires := Some epoch\<rparr>"

text \<open>Every cookie of the collection has a name.\<close>

definition nonempty_names :: "Cookies_state \<Rightarrow> bool" where
  "nonempty_names st = (\<forall>c \<in> set (cookies st). name c \<noteq> [])"

text \<open>\<^verbatim>\<open>segments.join(sep)\<close>.\<close>

fun join_with :: "string \<Rightarrow> string list \<Rightarrow> string" where
  "join_with sep [] = []"
| "join_with sep [x] = x"
| "join_with sep (x # y # ys) = x @ sep @ join_with sep (y # ys)"

text \<open>
  The serialisation in the specification's words: \<^verbatim>\<open>name=value\<close>, then
  \<^verbatim>\<open>expires=\<close>, \<^verbatim>\<open>path=\<close> and \<^verbatim>\<open>domain=\<close> for the attributes that are set, then the bare
  token \<^verbatim>\<open>secure\<close> when the flag is set, joined by a semicolon and a space.
\<close>

definition serialize_as_specified :: "Host \<Rightarrow> Cookie \<Rightarrow> string" where
  "serialize_as_specified h c =
     join_with ''; ''
       ([name c @ ''='' @ val c] @
        (case expires c of None \<Rightarrow> [] | Some d \<Rightarrow> [''expires='' @ Date_toString h d]) @
        (case path c of None \<Rightarrow> [] | Some p \<Rightarrow> [''path='' @ p]) @
        (case domain c of None \<Rightarrow> [] | Some d \<Rightarrow> [''domain='' @ d]) @
        (if secure c = Some True then [''secure''] else []))"

text \<open>
  The segments as \<^verbatim>\<open>toString\<close> is found to write them: a path or a domain that is the
  empty string is left out like one that is unset, and the flag is written
  \<^verbatim>\<open>secure=true\<close>.
\<close>

definition serialize_segments :: "Host \<Rightarrow> Cookie \<Rightarrow> string list" where
  "serialize_segments h c =
     [name c @ ''='' @ val c] @
     (case expires c of None \<Rightarrow> [] | Some d \<Rightarrow> [''expires='' @ Date_toString h d]) @
     (case path c of None \<Rightarrow> [] | Some p \<Rightarrow> (if p = [] then [] else [''path='' @ p])) @
     (case domain c of None \<Rightarrow> [] | Some d \<Rightarrow> (if d = [] then [] else [''domain='' @ d])) @
     (if secure c = Some True then [''secure=true''] else [])"

section \<open>Properties of parse\<close>

lemma split_on_not_Nil: "split_on sep s \<noteq> []"
  by (induction s) (auto split: list.splits)

text \<open>
  No branch of the loop body assigns \<^verbatim>\<open>currentCookie.name\<close>: a cookie without a name
  stays without one, nothing is pushed, and no iteration throws.
\<close>

lemma parse_part_unnamed:
  assumes "name cur = []"
  shows "\<exists>cur'. parse_part (out, cur) part = Inr (out, cur') \<and> name cur' = []"
proof (cases "split_on CHR ''='' part")
  case Nil
  then show ?thesis using split_on_not_Nil by blast
next
  case (Cons k rest)
  with assms show ?thesis
    by (simp add: parse_part_def Let_def)
qed

lemma parse_loop_unnamed:
  "name cur = [] \<Longrightarrow> \<exists>cur'. parse_loop (out, cur) parts = Inr (out, cur') \<and> name cur' = []"
proof (induction parts arbitrary: cur)
  case Nil
  then show ?case by simp
next
  case (Cons part parts)
  from parse_part_unnamed [OF Cons.prems, of out part]
  obtain c1 where s: "parse_part (out, cur) part = Inr (out, c1)" and n: "name c1 = []"
    by blast
  from Cons.IH [OF n] s show ?case by simp
qed

lemma parse_from_new_Cookie:
  "\<exists>cur'. parse_loop ([], new_Cookie) parts = Inr ([], cur') \<and> name cur' = []"
  by (rule parse_loop_unnamed) (simp add: new_Cookie_def)

text \<open>
  C9. For every input string, \<^verbatim>\<open>parse\<close> returns the empty array (and does not throw):
  the loop never gives the in-progress cookie a name, so the guard that pushes a cookie
  never holds, however many \<^verbatim>\<open>name=value\<close> pairs the string has.
\<close>

theorem Cookies_parse_empty: "Cookies_parse raw = Inr []"
  using parse_from_new_Cookie [of "split_on CHR '';'' raw"]
  by (auto simp: Cookies_parse_def)

text \<open>
  C1. The claim: a part whose key is no attribute token gives the in-progress cookie its
  name and value, so that parsing \<^verbatim>\<open>a=1; b=2\<close> yields a cookie named \<^verbatim>\<open>a\<close> with value
  \<^verbatim>\<open>1\<close>. The code: the loop over \<^verbatim>\<open>a=1; b=2\<close> ends with nothing pushed and with the
  in-progress cookie as the constructor made it, and \<^verbatim>\<open>parse\<close> returns the empty array.
\<close>

theorem parse_two_pairs_yields_nothing:
  "parse_loop ([], new_Cookie) (split_on CHR '';'' ''a=1; b=2'') = Inr ([], new_Cookie) \<and>
   Cookies_parse ''a=1; b=2'' = Inr []"
  by code_simp

text \<open>
  C4. The claim: an \<^verbatim>\<open>expires\<close> value of the form of \<^verbatim>\<open>Wed, 09 Jun 2021 10:18:14 GMT\<close>
  is parsed and assigned. The code: the pattern starts with \<^verbatim>\<open>\W{3}\<close>, three characters
  that are not word characters, so this value does not match and \<^verbatim>\<open>expires\<close> is
  \<^verbatim>\<open>undefined\<close> after the part; a value with three dots for the day name matches.
\<close>

theorem parse_expires_day_name_unset:
  "\<not> rx_at_end expires_rx ''Wed, 09 Jun 2021 10:18:14 GMT'' \<and>
   parse_part ([], new_Cookie) ''expires=Wed, 09 Jun 2021 10:18:14 GMT'' =
     Inr ([], new_Cookie\<lparr>expires := None\<rparr>) \<and>
   parse_part ([], new_Cookie) ''expires=..., 09 Jun 2021 10:18:14 GMT'' =
     Inr ([], new_Cookie\<lparr>expires := Some (Date_of_string ''..., 09 Jun 2021 10:18:14 GMT'')\<rparr>)"
  by code_simp

section \<open>Properties of toString\<close>

lemma join_with_snoc:
  "xs \<noteq> [] \<Longrightarrow> join_with sep (xs @ [y]) = join_with sep xs @ sep @ y"
  by (induction sep xs rule: join_with.induct) auto

lemma join_with_append:
  "xs \<noteq> [] \<Longrightarrow> join_with sep (xs @ ys) = join_with sep xs @ concat (map (\<lambda>y. sep @ y) ys)"
proof (induction ys rule: rev_induct)
  case Nil
  then show ?case by simp
next
  case (snoc y ys)
  have "join_with sep (xs @ ys @ [y]) = join_with sep ((xs @ ys) @ [y])" by simp
  also have "\<dots> = join_with sep (xs @ ys) @ sep @ y"
    using snoc.prems by (intro join_with_snoc) simp
  finally show ?case using snoc by simp
qed

text \<open>
  C5, as the claim states it, fails: for the cookie \<^verbatim>\<open>a=1\<close> with the flag set the
  specified string ends in the bare token \<^verbatim>\<open>secure\<close>, and \<^verbatim>\<open>toString\<close> writes
  \<^verbatim>\<open>secure=true\<close>.
\<close>

theorem toString_secure_is_not_bare:
  "Cookie_toString es_host (new_Cookie\<lparr>name := ''a'', val := ''1'', secure := Some True\<rparr>)
     = ''a=1; secure=true'' \<and>
   serialize_as_specified es_host
     (new_Cookie\<lparr>name := ''a'', val := ''1'', secure := Some True\<rparr>) = ''a=1; secure'' \<and>
   Cookie_toString es_host (new_Cookie\<lparr>name := ''a'', val := ''1'', secure := Some True\<rparr>)
     \<noteq> serialize_as_specified es_host
         (new_Cookie\<lparr>name := ''a'', val := ''1'', secure := Some True\<rparr>)"
  by (simp add: Cookie_toString_def serialize_as_specified_def new_Cookie_def)

text \<open>
  C5, amended. For every cookie, \<^verbatim>\<open>toString\<close> is the string
  \<^verbatim>\<open>name=value[; expires=<date>][; path=<path>][; domain=<domain>][; secure=true]\<close>, its
  segments joined by a semicolon and a space: \<^verbatim>\<open>expires\<close> is left out when it is unset
  (and is the host's rendering of the date otherwise), \<^verbatim>\<open>path\<close> and \<^verbatim>\<open>domain\<close> when
  unset or empty, and a cookie with the flag set contributes \<^verbatim>\<open>; secure=true\<close>.
\<close>

theorem Cookie_toString_segments:
  "Cookie_toString h c = join_with ''; '' (serialize_segments h c)"
proof -
  have "join_with ''; '' (serialize_segments h c) =
        join_with ''; '' [name c @ ''='' @ val c] @
        concat (map (\<lambda>y. ''; '' @ y)
          ((case expires c of None \<Rightarrow> [] | Some d \<Rightarrow> [''expires='' @ Date_toString h d]) @
           (case path c of None \<Rightarrow> [] | Some p \<Rightarrow> (if p = [] then [] else [''path='' @ p])) @
           (case domain c of None \<Rightarrow> [] | Some d \<Rightarrow> (if d = [] then [] else [''domain='' @ d])) @
           (if secure c = Some True then [''secure=true''] else [])))"
    unfolding serialize_segments_def by (rule join_with_append) simp
  also have "\<dots> = Cookie_toString h c"
    by (simp add: Cookie_toString_def Let_def split: option.splits bool.splits)
  finally show ?thesis by simp
qed

section \<open>Properties of the manager\<close>

text \<open>Whatever \<^verbatim>\<open>document.cookie\<close> holds, the constructor builds the fresh manager.\<close>

lemma Cookies_new_fresh: "Cookies_new raw = Inr fresh"
  using parse_from_new_Cookie [of "split_on CHR '';'' raw"]
  by (auto simp: Cookies_new_def Cookies_parse_def fresh_def)

lemma two_cookies_eq:
  "two_cookies =
     \<lparr>cookies =
        [\<lparr>name = ''x'', val = ''1'', expires = None, path = None, domain = None,
           secure = Some False\<rparr>,
         \<lparr>name = ''1'', val = ''v'', expires = None, path = Some ''/'', domain = Some ''d.e'',
           secure = Some True\<rparr>],
      document_cookie = [''x=1'', ''1=v; path=/; domain=d.e; secure=true'']\<rparr>"
  by code_simp

subsection \<open>has, get and set\<close>

text \<open>
  C2. The claim: \<^verbatim>\<open>has(name)\<close> is true exactly when a cookie of the collection has that
  name. The code asks whether \<^verbatim>\<open>name\<close> is a property key of the array: after
  \<^verbatim>\<open>set('a', '1')\<close> on the fresh manager the collection holds the cookie \<^verbatim>\<open>a\<close>, yet
  \<^verbatim>\<open>has('a')\<close> is false, and \<^verbatim>\<open>has('0')\<close> is true with no cookie of that name.
\<close>

theorem has_is_not_a_name_search:
  "cookies (snd (Cookies_set es_host fresh ''a'' ''1'' None None None None)) =
     [\<lparr>name = ''a'', val = ''1'', expires = None, path = None, domain = None,
       secure = Some False\<rparr>] \<and>
   \<not> Cookies_has es_host (snd (Cookies_set es_host fresh ''a'' ''1'' None None None None)) ''a'' \<and>
   Cookies_has es_host (snd (Cookies_set es_host fresh ''a'' ''1'' None None None None)) ''0''"
  by code_simp

text \<open>
  C3. The claim: after \<^verbatim>\<open>set(n, v)\<close>, \<^verbatim>\<open>get(n)\<close> returns \<^verbatim>\<open>v\<close> and \<^verbatim>\<open>has(n)\<close> is true.
  The code, on the repository's own test (\<^verbatim>\<open>set('cookieName', 'cookieValue')\<close> on the
  fresh manager): \<^verbatim>\<open>get('cookieName')\<close> is \<^verbatim>\<open>undefined\<close> and \<^verbatim>\<open>has('cookieName')\<close> is
  false.
\<close>

theorem set_then_get_is_absent:
  "Cookies_get es_host
     (snd (Cookies_set es_host fresh ''cookieName'' ''cookieValue'' None None None None))
     ''cookieName'' = None \<and>
   \<not> Cookies_has es_host
     (snd (Cookies_set es_host fresh ''cookieName'' ''cookieValue'' None None None None))
     ''cookieName''"
  by code_simp

subsection \<open>remove\<close>

text \<open>
  C6. The claim: for a name no cookie has, \<^verbatim>\<open>remove\<close> returns false and writes nothing.
  The code: with two cookies \<^verbatim>\<open>x\<close> and \<^verbatim>\<open>1\<close> stored, \<^verbatim>\<open>remove('0')\<close> returns true
  (\<^verbatim>\<open>'0'\<close> is an index of the array), and so does \<^verbatim>\<open>remove('length')\<close> on the fresh
  manager; the state is unchanged in both.
\<close>

theorem remove_of_absent_name_returns_true:
  "find (\<lambda>cookie. name cookie = ''0'') (cookies two_cookies) = None \<and>
   Cookies_remove es_host two_cookies ''0'' = (True, two_cookies) \<and>
   Cookies_remove es_host fresh ''length'' = (True, fresh)"
  by code_simp

text \<open>What does hold for a name no cookie has: nothing changes, and \<^verbatim>\<open>get\<close> is absent.\<close>

lemma absent_name_no_effect:
  assumes "find (\<lambda>cookie. name cookie = n) (cookies st) = None"
  shows "snd (Cookies_remove h st n) = st \<and> Cookies_get h st n = None"
  using assms by (simp add: Cookies_remove_def Cookies_get_def)

lemma find_first_index:
  "find P xs = Some c \<Longrightarrow>
   \<exists>i<length xs. xs ! i = c \<and> P c \<and> (\<forall>j<i. \<not> P (xs ! j)) \<and> update_first P y xs = xs[i := y]"
proof (induction xs)
  case Nil
  then show ?case by simp
next
  case (Cons x xs)
  show ?case
  proof (cases "P x")
    case True
    with Cons.prems have "x = c" by simp
    with True have "0 < length (x # xs) \<and> (x # xs) ! 0 = c \<and> P c \<and>
        (\<forall>j<0. \<not> P ((x # xs) ! j)) \<and> update_first P y (x # xs) = (x # xs)[0 := y]"
      by simp
    then show ?thesis by blast
  next
    case False
    with Cons.prems have "find P xs = Some c" by simp
    from Cons.IH [OF this] obtain i where i: "i < length xs" "xs ! i = c" "P c"
      "\<forall>j<i. \<not> P (xs ! j)" "update_first P y xs = xs[i := y]"
      by blast
    have "\<forall>j<Suc i. \<not> P ((x # xs) ! j)"
    proof (intro allI impI)
      fix j assume "j < Suc i"
      then show "\<not> P ((x # xs) ! j)" using False i(4) by (cases j) auto
    qed
    with i False have "Suc i < length (x # xs) \<and> (x # xs) ! Suc i = c \<and> P c \<and>
        (\<forall>j<Suc i. \<not> P ((x # xs) ! j)) \<and>
        update_first P y (x # xs) = (x # xs)[Suc i := y]"
      by simp
    then show ?thesis by blast
  qed
qed

lemma Cookies_remove_found:
  assumes "Cookies_has h st n" and "find (\<lambda>cookie. name cookie = n) (cookies st) = Some c"
  shows "cookies (snd (Cookies_remove h st n)) =
           update_first (\<lambda>cookie. name cookie = n) (blank c) (cookies st)"
  using assms by (simp add: Cookies_remove_def Let_def blank_def)

lemma Cookies_remove_returns_has: "fst (Cookies_remove h st n) = Cookies_has h st n"
  by (simp add: Cookies_remove_def Let_def split: option.splits)

text \<open>
  C10. Whenever \<^verbatim>\<open>remove(n)\<close> returns true and \<^verbatim>\<open>find\<close> finds a cookie \<open>c\<close> named
  \<open>n\<close>, the collection keeps its length and order; the found cookie (the first of that
  name, at index \<open>i\<close>) keeps its name, path, domain and secure flag while its value
  becomes the empty string and its expiry the epoch; every other cookie is unchanged.
\<close>

theorem Cookies_remove_frame:
  assumes "fst (Cookies_remove h st n)"
    and "find (\<lambda>cookie. name cookie = n) (cookies st) = Some c"
  shows "\<exists>i<length (cookies st).
           cookies st ! i = c \<and> name c = n \<and> (\<forall>j<i. name (cookies st ! j) \<noteq> n) \<and>
           length (cookies (snd (Cookies_remove h st n))) = length (cookies st) \<and>
           cookies (snd (Cookies_remove h st n)) ! i =
             \<lparr>name = name c, val = [], expires = Some epoch, path = path c,
              domain = domain c, secure = secure c\<rparr> \<and>
           (\<forall>j<length (cookies st). j \<noteq> i \<longrightarrow>
              cookies (snd (Cookies_remove h st n)) ! j = cookies st ! j)"
proof -
  from assms(1) have has: "Cookies_has h st n"
    by (simp add: Cookies_remove_returns_has)
  from find_first_index [OF assms(2), of "blank c"]
  obtain i where i: "i < length (cookies st)" "cookies st ! i = c" "name c = n"
    "\<forall>j<i. name (cookies st ! j) \<noteq> n"
    "update_first (\<lambda>cookie. name cookie = n) (blank c) (cookies st) = (cookies st)[i := blank c]"
    by blast
  from Cookies_remove_found [OF has assms(2)] i(5)
  have upd: "cookies (snd (Cookies_remove h st n)) = (cookies st)[i := blank c]"
    by simp
  have "length (cookies (snd (Cookies_remove h st n))) = length (cookies st)"
    by (simp add: upd)
  moreover have "cookies (snd (Cookies_remove h st n)) ! i =
      \<lparr>name = name c, val = [], expires = Some epoch, path = path c,
       domain = domain c, secure = secure c\<rparr>"
    using i(1) by (simp add: upd blank_def)
  moreover have "\<forall>j<length (cookies st). j \<noteq> i \<longrightarrow>
      cookies (snd (Cookies_remove h st n)) ! j = cookies st ! j"
    by (simp add: upd)
  ultimately show ?thesis using i(1-4) by blast
qed

theorem Cookies_remove_frame_witness:
  "fst (Cookies_remove es_host two_cookies ''1'') \<and>
   find (\<lambda>cookie. name cookie = ''1'') (cookies two_cookies) =
     Some \<lparr>name = ''1'', val = ''v'', expires = None, path = Some ''/'', domain = Some ''d.e'',
           secure = Some True\<rparr> \<and>
   cookies (snd (Cookies_remove es_host two_cookies ''1'')) =
     [\<lparr>name = ''x'', val = ''1'', expires = None, path = None, domain = None,
        secure = Some False\<rparr>,
      \<lparr>name = ''1'', val = [], expires = Some epoch, path = Some ''/'', domain = Some ''d.e'',
        secure = Some True\<rparr>]"
proof -
  let ?c = "\<lparr>name = ''1'', val = ''v'', expires = None, path = Some ''/'', domain = Some ''d.e'',
           secure = Some True\<rparr>"
  have ret: "fst (Cookies_remove es_host two_cookies ''1'')"
    by code_simp
  have found: "find (\<lambda>cookie. name cookie = ''1'') (cookies two_cookies) = Some ?c"
    by (simp add: two_cookies_eq)
  from Cookies_remove_frame [OF ret found]
  obtain i where i: "i < length (cookies two_cookies)" "cookies two_cookies ! i = ?c"
    and len: "length (cookies (snd (Cookies_remove es_host two_cookies ''1''))) =
        length (cookies two_cookies)"
    and at_i: "cookies (snd (Cookies_remove es_host two_cookies ''1'')) ! i =
        \<lparr>name = name ?c, val = [], expires = Some epoch, path = path ?c,
         domain = domain ?c, secure = secure ?c\<rparr>"
    and others: "\<forall>j<length (cookies two_cookies). j \<noteq> i \<longrightarrow>
        cookies (snd (Cookies_remove es_host two_cookies ''1'')) ! j = cookies two_cookies ! j"
    by blast
  from i have i1: "i = 1"
    by (cases i) (auto simp: two_cookies_eq)
  from len have l2: "length (cookies (snd (Cookies_remove es_host two_cookies ''1''))) = 2"
    by (simp add: two_cookies_eq)
  from others i1 have o0: "cookies (snd (Cookies_remove es_host two_cookies ''1'')) ! 0 =
      cookies two_cookies ! 0"
    by (simp add: two_cookies_eq)
  have "cookies (snd (Cookies_remove es_host two_cookies ''1'')) =
     [cookies (snd (Cookies_remove es_host two_cookies ''1'')) ! 0,
      cookies (snd (Cookies_remove es_host two_cookies ''1'')) ! 1]"
    using l2 by (auto simp: list_eq_iff_nth_eq less_Suc_eq numeral_2_eq_2)
  with at_i i1 o0 ret found show ?thesis
    by (simp add: two_cookies_eq)
qed

subsection \<open>clear\<close>

lemma clear_loop_map:
  "clear_loop h cs w = (map blank cs, w @ map (\<lambda>c. Cookie_toString h (blank c)) cs)"
  by (induction cs arbitrary: w) (simp_all add: blank_def Let_def)

text \<open>
  C7. \<^verbatim>\<open>clear()\<close> returns true exactly when the collection is not empty. Every cookie
  is left with the empty value and the epoch as expiry (its other fields and its place
  kept), and the strings written to the store are, in order, the serialisation of each
  cookie as it is left, one per cookie; on the empty collection that is no write and no
  change.
\<close>

theorem Cookies_clear_spec:
  "fst (Cookies_clear h st) = (cookies st \<noteq> []) \<and>
   cookies (snd (Cookies_clear h st)) = map blank (cookies st) \<and>
   (\<forall>c \<in> set (cookies (snd (Cookies_clear h st))). val c = [] \<and> expires c = Some epoch) \<and>
   document_cookie (snd (Cookies_clear h st)) =
     document_cookie st @ map (Cookie_toString h) (cookies (snd (Cookies_clear h st)))"
proof (cases "cookies st")
  case Nil
  then show ?thesis by (simp add: Cookies_clear_def)
next
  case (Cons c cs)
  then have ne: "length (cookies st) > 0" by simp
  have r: "Cookies_clear h st =
      (True, st\<lparr>cookies := map blank (cookies st),
                document_cookie := document_cookie st @
                  map (\<lambda>c. Cookie_toString h (blank c)) (cookies st)\<rparr>)"
    using ne by (simp add: Cookies_clear_def clear_loop_map)
  have "\<forall>c \<in> set (map blank (cookies st)). val c = [] \<and> expires c = Some epoch"
    by (simp add: blank_def)
  with r ne show ?thesis by (simp add: comp_def)
qed

theorem Cookies_clear_spec_witness:
  "fst (Cookies_clear es_host two_cookies) \<and>
   cookies (snd (Cookies_clear es_host two_cookies)) =
     [\<lparr>name = ''x'', val = [], expires = Some epoch, path = None, domain = None,
        secure = Some False\<rparr>,
      \<lparr>name = ''1'', val = [], expires = Some epoch, path = Some ''/'', domain = Some ''d.e'',
        secure = Some True\<rparr>] \<and>
   document_cookie (snd (Cookies_clear es_host two_cookies)) =
     [''x=1'', ''1=v; path=/; domain=d.e; secure=true'',
      ''x=; expires=Thu Jan 01 1970 00:00:00 GMT+0000 (Coordinated Universal Time)'',
      ''1=; expires=Thu Jan 01 1970 00:00:00 GMT+0000 (Coordinated Universal Time); path=/; domain=d.e; secure=true''] \<and>
   \<not> fst (Cookies_clear es_host fresh) \<and>
   document_cookie (snd (Cookies_clear es_host fresh)) = []"
  using Cookies_clear_spec [of es_host two_cookies] Cookies_clear_spec [of es_host fresh]
  by (simp add: two_cookies_eq fresh_def blank_def Cookie_toString_def es_host_def)

subsection \<open>The names of the stored cookies\<close>

lemma update_first_preserves:
  "\<forall>x \<in> set xs. Q x \<Longrightarrow> Q y \<Longrightarrow> \<forall>x \<in> set (update_first P y xs). Q x"
  by (induction xs) auto

lemma find_Some_in_set: "find P xs = Some c \<Longrightarrow> c \<in> set xs"
  by (induction xs) (auto split: if_splits)

lemma nonempty_names_set:
  assumes "nonempty_names st" and "n \<noteq> []"
  shows "nonempty_names (snd (Cookies_set h st n v e p d s))"
proof (cases "Cookies_has h st n")
  case False
  with assms show ?thesis
    by (simp add: Cookies_set_def nonempty_names_def new_Cookie_def Let_def)
next
  case True
  show ?thesis
  proof (cases "find (\<lambda>cookie. name cookie = n) (cookies st)")
    case None
    with True assms show ?thesis by (simp add: Cookies_set_def)
  next
    case (Some c)
    let ?c' = "c\<lparr>val := v, expires := e, path := p, domain := d, secure := Some (s = Some True)\<rparr>"
    from Some have "c \<in> set (cookies st)" by (rule find_Some_in_set)
    with assms(1) have "name ?c' \<noteq> []" by (simp add: nonempty_names_def)
    with assms(1) have "\<forall>x \<in> set (update_first (\<lambda>cookie. name cookie = n) ?c' (cookies st)). name x \<noteq> []"
      unfolding nonempty_names_def by (intro update_first_preserves) 
    with True Some show ?thesis
      by (simp add: Cookies_set_def nonempty_names_def Let_def)
  qed
qed

lemma nonempty_names_remove:
  assumes "nonempty_names st"
  shows "nonempty_names (snd (Cookies_remove h st n))"
proof (cases "Cookies_has h st n")
  case False
  with assms show ?thesis by (simp add: Cookies_remove_def)
next
  case True
  show ?thesis
  proof (cases "find (\<lambda>cookie. name cookie = n) (cookies st)")
    case None
    with True assms show ?thesis by (simp add: Cookies_remove_def)
  next
    case (Some c)
    from Some have "c \<in> set (cookies st)" by (rule find_Some_in_set)
    with assms have "name (blank c) \<noteq> []" by (simp add: nonempty_names_def blank_def)
    with assms have "\<forall>x \<in> set (update_first (\<lambda>cookie. name cookie = n) (blank c) (cookies st)). name x \<noteq> []"
      unfolding nonempty_names_def by (intro update_first_preserves)
    with Cookies_remove_found [OF True Some] show ?thesis
      by (simp add: nonempty_names_def)
  qed
qed

lemma nonempty_names_clear:
  assumes "nonempty_names st"
  shows "nonempty_names (snd (Cookies_clear h st))"
  using assms
  by (cases "cookies st") (simp_all add: Cookies_clear_def clear_loop_map nonempty_names_def blank_def)

text \<open>
  C8, as the claim states it, fails: \<^verbatim>\<open>set('', 'v')\<close> on the fresh manager appends a
  cookie whose name is the empty string.
\<close>

theorem set_empty_name_stored:
  "nonempty_names fresh \<and>
   cookies (snd (Cookies_set es_host fresh [] ''v'' None None None None)) =
     [\<lparr>name = [], val = ''v'', expires = None, path = None, domain = None,
       secure = Some False\<rparr>] \<and>
   \<not> nonempty_names (snd (Cookies_set es_host fresh [] ''v'' None None None None))"
  by code_simp

text \<open>
  C8, amended. That every stored cookie has a non-empty name holds of the collection
  the constructor builds from any \<^verbatim>\<open>document.cookie\<close> (which it always builds), and is
  preserved by \<^verbatim>\<open>remove\<close>, by \<^verbatim>\<open>clear\<close>, and by \<^verbatim>\<open>set(n, ...)\<close> when \<open>n\<close> is not the
  empty string.
\<close>

theorem nonempty_names_preserved:
  assumes "nonempty_names st"
  shows "(\<exists>st0. Cookies_new raw = Inr st0 \<and> nonempty_names st0) \<and>
         (n \<noteq> [] \<longrightarrow> nonempty_names (snd (Cookies_set h st n v e p d s))) \<and>
         nonempty_names (snd (Cookies_remove h st m)) \<and>
         nonempty_names (snd (Cookies_clear h st))"
proof -
  have "nonempty_names fresh" by (simp add: nonempty_names_def fresh_def)
  then have "\<exists>st0. Cookies_new raw = Inr st0 \<and> nonempty_names st0"
    using Cookies_new_fresh by blast
  with assms show ?thesis
    by (simp add: nonempty_names_set nonempty_names_remove nonempty_names_clear)
qed

theorem nonempty_names_preserved_witness:
  "nonempty_names two_cookies \<and>
   nonempty_names (snd (Cookies_set es_host two_cookies ''b'' ''2'' None None None None)) \<and>
   nonempty_names (snd (Cookies_remove es_host two_cookies ''1'')) \<and>
   nonempty_names (snd (Cookies_clear es_host two_cookies)) \<and>
   Cookies_new ''a=1; b=2'' = Inr fresh"
proof -
  have inv: "nonempty_names two_cookies"
    by (simp add: nonempty_names_def two_cookies_eq)
  have n: "''b'' \<noteq> []" by simp
  from nonempty_names_preserved
         [where st = two_cookies and raw = "''a=1; b=2''" and n = "''b''" and h = es_host
            and v = "''2''" and e = None and p = None and d = None and s = None and m = "''1''", OF inv] n
  have "nonempty_names (snd (Cookies_set es_host two_cookies ''b'' ''2'' None None None None))"
    and "nonempty_names (snd (Cookies_remove es_host two_cookies ''1''))"
    and "nonempty_names (snd (Cookies_clear es_host two_cookies))"
    by simp_all
  moreover have "Cookies_new ''a=1; b=2'' = Inr fresh" by code_simp
  ultimately show ?thesis using inv by simp
qed

end
